theory Spec2Isabelle
  imports Main "HOL-Library.Word" "HOL-Library.Multiset" "HOL-Library.Sublist"
begin

section \<open>Shared vocabulary\<close>

text \<open>
  A Go \<^verbatim>\<open>error\<close> value is identified with its message; \<^verbatim>\<open>nil\<close> is \<open>None\<close> of
  \<open>error option\<close>, and a \<^verbatim>\<open>(T, error)\<close> result is \<open>error + T\<close> with \<open>Inl\<close> the error.
  \<^verbatim>\<open>fmt.Errorf\<close> and \<^verbatim>\<open>fmt.Sprintf\<close> are written out as concatenations; \<^verbatim>\<open>%w\<close> and
  \<^verbatim>\<open>%v\<close> both insert the message of the error they are given. A panic is a value of
  its own, apart from the errors a function returns. What the functions print on standard
  output and standard error is left out.
\<close>

type_synonym error = string

datatype panic = NilPointerDereference

definition newline :: string where
  "newline = [CHR 0x0A]"

definition quoted :: "string \<Rightarrow> string" where
  \<comment> \<open>the format \<^verbatim>\<open>'%s'\<close>\<close>
  "quoted s = CHR 0x27 # s @ [CHR 0x27]"

definition fmt_v :: "error option \<Rightarrow> string" where
  \<comment> \<open>\<^verbatim>\<open>%v\<close> applied to an error value that may be nil\<close>
  "fmt_v e = (case e of None \<Rightarrow> ''<nil>'' | Some msg \<Rightarrow> msg)"

fun strings_Join :: "string list \<Rightarrow> string \<Rightarrow> string" where
  "strings_Join [] sep = []"
| "strings_Join [x] sep = x"
| "strings_Join (x # y # ys) sep = x @ sep @ strings_Join (y # ys) sep"

definition strings_HasPrefix :: "string \<Rightarrow> string \<Rightarrow> bool" where
  "strings_HasPrefix s pre = prefix pre s"

section \<open>Configuration (package config)\<close>

record ClusterConfig =
  Name :: string
  Context :: string
  KubeConfig :: string
  Region :: string
  Environment :: string
  IsDefault :: bool

record MultiClusterConfig =
  Clusters :: "ClusterConfig list"
  DefaultNamespace :: string
  Timeout :: int

text \<open>
  \<^verbatim>\<open>setDefaults\<close>: the search for a default entry is the source's loop with \<^verbatim>\<open>break\<close>;
  the assignment \<^verbatim>\<open>config.Clusters[0].IsDefault = true\<close> is guarded by
  \<^verbatim>\<open>len(config.Clusters) > 0\<close>, so the index is in range whenever it is used.
\<close>

fun hasDefault_loop :: "ClusterConfig list \<Rightarrow> bool" where
  "hasDefault_loop [] = False"
| "hasDefault_loop (cluster # rest) = (if IsDefault cluster then True else hasDefault_loop rest)"

definition setDefaults :: "MultiClusterConfig \<Rightarrow> MultiClusterConfig" where
  "setDefaults config0 =
     (let config1 = (if DefaultNamespace config0 = [] then config0\<lparr>DefaultNamespace := ''default''\<rparr>
                     else config0);
          config2 = (if Timeout config1 = 0 then config1\<lparr>Timeout := 30\<rparr> else config1);
          hasDefault = hasDefault_loop (Clusters config2)
      in if \<not> hasDefault \<and> length (Clusters config2) > 0
         then config2\<lparr>Clusters := (Clusters config2)[0 := (Clusters config2 ! 0)\<lparr>IsDefault := True\<rparr>]\<rparr>
         else config2)"

section \<open>Connection registry (package cluster)\<close>

text \<open>
  \<^verbatim>\<open>ClusterClient\<close>: \<^verbatim>\<open>RestConfig\<close> is a pointer and \<^verbatim>\<open>Clientset\<close> an interface value, both
  nil until a connection succeeds, hence options over the opaque types \<open>'r\<close> and \<open>'k\<close> of
  the client library. \<^verbatim>\<open>Manager\<close>: the \<^verbatim>\<open>clients\<close> map and the configuration; the mutex
  has no counterpart in a sequential model.
\<close>

record ('r, 'k) ClusterClient =
  Config :: ClusterConfig
  RestConfig :: "'r option"
  Clientset :: "'k option"
  Connected :: bool
  Error :: "error option"

record ('r, 'k) Manager =
  clients :: "string \<rightharpoonup> ('r, 'k) ClusterClient"
  config :: MultiClusterConfig

record ClusterStatus =
  status_Name :: string
  status_Environment :: string
  status_Region :: string
  status_Connected :: bool
  status_IsDefault :: bool
  status_Error :: string

text \<open>
  What \<^verbatim>\<open>connectToCluster\<close> calls outside the repository: \<^verbatim>\<open>os.UserHomeDir\<close>,
  \<^verbatim>\<open>filepath.Join\<close>, the deferred kubeconfig loader's \<^verbatim>\<open>ClientConfig()\<close> for an explicit
  path and a context, the assignment of \<^verbatim>\<open>restConfig.Timeout\<close> (in seconds here),
  \<^verbatim>\<open>kubernetes.NewForConfig\<close> and the probe \<^verbatim>\<open>Discovery().ServerVersion()\<close>.
\<close>

record ('r, 'k) kube_env =
  os_UserHomeDir :: "error + string"
  filepath_Join :: "string list \<Rightarrow> string"
  ClientConfig :: "string \<Rightarrow> string \<Rightarrow> error + 'r"
  with_Timeout :: "'r \<Rightarrow> int \<Rightarrow> 'r"
  NewForConfig :: "'r \<Rightarrow> error + 'k"
  ServerVersion :: "'k \<Rightarrow> error option"

definition default_kubeconfig :: "('r, 'k) kube_env \<Rightarrow> string \<Rightarrow> error + string" where
  \<comment> \<open>step 1 of \<^verbatim>\<open>connectToCluster\<close>: the standard location when no path is configured\<close>
  "default_kubeconfig env kubeconfigPath =
     (if kubeconfigPath = [] then
        (case os_UserHomeDir env of
           Inl err \<Rightarrow> Inl (''cannot determine home directory: '' @ err)
         | Inr homeDir \<Rightarrow> Inr (filepath_Join env [homeDir, ''.kube'', ''config'']))
      else Inr kubeconfigPath)"

definition expand_tilde :: "('r, 'k) kube_env \<Rightarrow> string \<Rightarrow> error + string" where
  \<comment> \<open>still step 1: \<^verbatim>\<open>~/\<close> at the start of the path is replaced by the home directory\<close>
  "expand_tilde env kubeconfigPath =
     (if strings_HasPrefix kubeconfigPath ''~/'' then
        (case os_UserHomeDir env of
           Inl err \<Rightarrow> Inl (''cannot expand tilde in path: '' @ err)
         | Inr homeDir \<Rightarrow> Inr (filepath_Join env [homeDir, drop 2 kubeconfigPath]))
      else Inr kubeconfigPath)"

definition connectToCluster ::
  "('r, 'k) kube_env \<Rightarrow> MultiClusterConfig \<Rightarrow> ClusterConfig \<Rightarrow> ('r, 'k) ClusterClient" where
  "connectToCluster env cfg clusterConfig =
     (let client = \<lparr>Config = clusterConfig, RestConfig = None, Clientset = None,
                     Connected = False, Error = None\<rparr>
      in case default_kubeconfig env (KubeConfig clusterConfig) of
           Inl e \<Rightarrow> client\<lparr>Error := Some e\<rparr>
         | Inr path0 \<Rightarrow>
        (case expand_tilde env path0 of
           Inl e \<Rightarrow> client\<lparr>Error := Some e\<rparr>
         | Inr kubeconfigPath \<Rightarrow>
        (case ClientConfig env kubeconfigPath (Context clusterConfig) of
           Inl err \<Rightarrow> client\<lparr>Error := Some (''failed to load kubeconfig: '' @ err)\<rparr>
         | Inr loaded \<Rightarrow>
        (let restConfig = with_Timeout env loaded (Timeout cfg)
         in case NewForConfig env restConfig of
              Inl err \<Rightarrow> client\<lparr>Error := Some (''failed to create Kubernetes client: '' @ err)\<rparr>
            | Inr clientset \<Rightarrow>
           (case ServerVersion env clientset of
              Some err \<Rightarrow> client\<lparr>Error := Some (''failed to connect to cluster: '' @ err)\<rparr>
            | None \<Rightarrow> client\<lparr>RestConfig := Some restConfig, Clientset := Some clientset,
                              Connected := True\<rparr>)))))"

text \<open>
  \<^verbatim>\<open>connectToAllClusters\<close> starts one goroutine per configured cluster; each sends its
  \<^verbatim>\<open>ClusterClient\<close> on the channel and the receiving loop takes them in the order in which
  they arrive. That order is the schedule \<open>sched\<close>: the list of the goroutines' positions
  in \<^verbatim>\<open>m.config.Clusters\<close>, in order of arrival. Every goroutine sends exactly once, so a
  schedule of a run is a permutation of the positions.
\<close>

definition valid_schedule :: "nat list \<Rightarrow> nat \<Rightarrow> bool" where
  "valid_schedule sched n \<longleftrightarrow> mset sched = mset [0..<n]"

definition arrivals :: "nat list \<Rightarrow> 'a list \<Rightarrow> 'a list" where
  "arrivals sched sent = map (\<lambda>i. sent ! i) sched"

definition failure_message :: "('r, 'k) ClusterClient \<Rightarrow> string" where
  \<comment> \<open>\<^verbatim>\<open>fmt.Sprintf("Failed to connect to %s: %v", client.Config.Name, client.Error)\<close>\<close>
  "failure_message client =
     ''Failed to connect to '' @ Name (Config client) @ '': '' @ fmt_v (Error client)"

definition receive ::
  "('r, 'k) Manager \<times> string list \<times> int \<Rightarrow> ('r, 'k) ClusterClient
     \<Rightarrow> ('r, 'k) Manager \<times> string list \<times> int" where
  \<comment> \<open>one iteration of \<^verbatim>\<open>for client := range connectionResults\<close>\<close>
  "receive st client =
     (case st of (m, connectionErrors, successfulConnections) \<Rightarrow>
        (let m' = m\<lparr>clients := (clients m)(Name (Config client) \<mapsto> client)\<rparr>
         in if Connected client then (m', connectionErrors, successfulConnections + 1)
            else (m', connectionErrors @ [failure_message client], successfulConnections)))"

definition connectToAllClusters ::
  "('r, 'k) kube_env \<Rightarrow> ('r, 'k) Manager \<Rightarrow> nat list \<Rightarrow> error option \<times> ('r, 'k) Manager" where
  "connectToAllClusters env m sched =
     (let connectionResults =
            arrivals sched (map (connectToCluster env (config m)) (Clusters (config m)))
      in case foldl receive (m, [], 0) connectionResults of
           (m', connectionErrors, successfulConnections) \<Rightarrow>
             if successfulConnections = 0
             then (Some (''failed to connect to any clusters:'' @ newline
                           @ strings_Join connectionErrors newline), m')
             else (None, m'))"

definition NewManager ::
  "('r, 'k) kube_env \<Rightarrow> MultiClusterConfig \<Rightarrow> nat list \<Rightarrow> error + ('r, 'k) Manager" where
  "NewManager env cfg sched =
     (let manager = \<lparr>clients = Map.empty, config = cfg\<rparr>
      in case connectToAllClusters env manager sched of
           (Some err, m') \<Rightarrow> Inl (''failed to connect to clusters: '' @ err)
         | (None, m') \<Rightarrow> Inr m')"

text \<open>
  The steady-state operations have a pointer receiver, so each returns the manager it
  leaves behind next to its result. A \<^verbatim>\<open>range\<close> over the \<^verbatim>\<open>clients\<close> map visits the keys
  in an order the runtime chooses; that order is the argument \<open>order\<close>, and
  \<open>valid_order\<close> says that it visits every key once.
\<close>

definition valid_order :: "string list \<Rightarrow> ('r, 'k) Manager \<Rightarrow> bool" where
  "valid_order order m \<longleftrightarrow> distinct order \<and> set order = dom (clients m)"

definition range_clients ::
  "('r, 'k) Manager \<Rightarrow> string list \<Rightarrow> (string \<times> ('r, 'k) ClusterClient) list" where
  "range_clients m order =
     List.map_filter (\<lambda>name. map_option (Pair name) (clients m name)) order"

definition GetClient ::
  "('r, 'k) Manager \<Rightarrow> string \<Rightarrow> (error + ('r, 'k) ClusterClient) \<times> ('r, 'k) Manager" where
  "GetClient m clusterName =
     (case clients m clusterName of
        None \<Rightarrow> (Inl (''cluster '' @ quoted clusterName @ '' not found in configuration''), m)
      | Some client \<Rightarrow>
          if \<not> Connected client
          then (Inl (''cluster '' @ quoted clusterName @ '' is not connected: ''
                       @ fmt_v (Error client)), m)
          else (Inr client, m))"

definition GetDefaultClient ::
  "('r, 'k) Manager \<Rightarrow> string list \<Rightarrow> (error + ('r, 'k) ClusterClient) \<times> ('r, 'k) Manager" where
  "GetDefaultClient m order =
     (case find IsDefault (Clusters (config m)) of
        Some clusterConfig \<Rightarrow> GetClient m (Name clusterConfig)
      | None \<Rightarrow>
          (case find Connected (map snd (range_clients m order)) of
             Some client \<Rightarrow> (Inr client, m)
           | None \<Rightarrow> (Inl ''no connected clusters available'', m)))"

definition cluster_status :: "('r, 'k) ClusterClient \<Rightarrow> ClusterStatus" where
  \<comment> \<open>the body of the loop of \<^verbatim>\<open>ListClusters\<close>\<close>
  "cluster_status client =
     (let status = \<lparr>status_Name = Name (Config client),
                     status_Environment = Environment (Config client),
                     status_Region = Region (Config client),
                     status_Connected = Connected client,
                     status_IsDefault = IsDefault (Config client),
                     status_Error = []\<rparr>
      in case Error client of
           Some msg \<Rightarrow> status\<lparr>status_Error := msg\<rparr>
         | None \<Rightarrow> status)"

definition ListClusters ::
  "('r, 'k) Manager \<Rightarrow> string list \<Rightarrow> ClusterStatus list \<times> ('r, 'k) Manager" where
  "ListClusters m order = (map (cluster_status \<circ> snd) (range_clients m order), m)"

text \<open>
  \<^verbatim>\<open>TestConnections\<close> probes every handle whose \<^verbatim>\<open>Connected\<close> flag is set, through the
  environment as it is at the time of the call. A method call on a nil \<^verbatim>\<open>Clientset\<close>
  panics.
\<close>

fun probe_loop ::
  "('r, 'k) kube_env \<Rightarrow> (string \<times> ('r, 'k) ClusterClient) list \<Rightarrow> string list
     \<Rightarrow> panic + string list" where
  "probe_loop env [] errors = Inr errors"
| "probe_loop env ((name, client) # rest) errors =
     (if \<not> Connected client then probe_loop env rest errors
      else case Clientset client of
             None \<Rightarrow> Inl NilPointerDereference
           | Some clientset \<Rightarrow>
               (case ServerVersion env clientset of
                  Some err \<Rightarrow> probe_loop env rest (errors @ [''Cluster '' @ name @ '': '' @ err])
                | None \<Rightarrow> probe_loop env rest errors))"

definition TestConnections ::
  "('r, 'k) kube_env \<Rightarrow> ('r, 'k) Manager \<Rightarrow> string list
     \<Rightarrow> (panic + error option) \<times> ('r, 'k) Manager" where
  "TestConnections env m order =
     (case probe_loop env (range_clients m order) [] of
        Inl p \<Rightarrow> (Inl p, m)
      | Inr errors \<Rightarrow>
          if length errors > 0
          then (Inr (Some (''connection test failed:'' @ newline @ strings_Join errors newline)), m)
          else (Inr None, m))"

section \<open>Workloads across clusters (package workload)\<close>

text \<open>
  The part of \<^verbatim>\<open>appsv1.Deployment\<close> that the package reads or writes: the object
  metadata (\<^verbatim>\<open>Namespace\<close>, \<^verbatim>\<open>Name\<close>, \<^verbatim>\<open>ResourceVersion\<close>, \<^verbatim>\<open>CreationTimestamp\<close>),
  \<^verbatim>\<open>Spec.Replicas\<close>, which is a \<^verbatim>\<open>*int32\<close> and may be nil, the containers of the pod
  template, and \<^verbatim>\<open>Status.ReadyReplicas\<close>. An \<^verbatim>\<open>int32\<close> is a 32-bit word, compared as a
  signed number.
\<close>

type_synonym int32 = "32 word"

record Container =
  Image :: string

record Deployment =
  meta_Namespace :: string
  meta_Name :: string
  ResourceVersion :: string
  CreationTimestamp :: int
  Spec_Replicas :: "int32 option"
  Spec_Containers :: "Container list"
  Status_ReadyReplicas :: int32

record DeploymentInfo =
  ClusterName :: string
  info_Namespace :: string
  info_Name :: string
  Replicas :: int32
  ReadyReplicas :: int32
  info_Image :: string
  Status :: string
  Age :: string
  info_Error :: string

record ('r, 'k) workload_Manager =
  clusterManager :: "('r, 'k) Manager"

text \<open>
  The remote side. \<open>'s\<close> is the state of the remote clusters; the reads \<^verbatim>\<open>List\<close> and
  \<^verbatim>\<open>Get\<close> of \<^verbatim>\<open>AppsV1().Deployments(namespace)\<close> answer from it, the writes
  \<^verbatim>\<open>Update\<close> and \<^verbatim>\<open>Create\<close> also change it. \<open>format_age\<close> stands for
  \<^verbatim>\<open>formatDuration(time.Since(t).Round(time.Second))\<close>, which reads the clock and goes
  through \<^verbatim>\<open>float64\<close>; no property below depends on it.
\<close>

record ('k, 's) kube_api =
  Deployments_List :: "'k \<Rightarrow> string \<Rightarrow> 's \<Rightarrow> error + Deployment list"
  Deployments_Get :: "'k \<Rightarrow> string \<Rightarrow> string \<Rightarrow> 's \<Rightarrow> error + Deployment"
  Deployments_Update :: "'k \<Rightarrow> string \<Rightarrow> Deployment \<Rightarrow> 's \<Rightarrow> error option \<times> 's"
  Deployments_Create :: "'k \<Rightarrow> string \<Rightarrow> Deployment \<Rightarrow> 's \<Rightarrow> error option \<times> 's"
  format_age :: "int \<Rightarrow> string"

subsection \<open>Listing deployments\<close>

text \<open>
  The \<^verbatim>\<open>if\<close>/\<^verbatim>\<open>else if\<close> chain of \<^verbatim>\<open>getDeploymentsFromCluster\<close> that turns the desired
  replica count (\<^verbatim>\<open>*deployment.Spec.Replicas\<close>, already dereferenced) and the ready replica
  count (\<^verbatim>\<open>deployment.Status.ReadyReplicas\<close>) into a status string.
\<close>

definition deploymentStatus :: "int32 \<Rightarrow> int32 \<Rightarrow> string" where
  "deploymentStatus replicas readyReplicas =
     (if readyReplicas = replicas then ''Ready''
      else if 0 < sint readyReplicas then ''Partial''
      else if readyReplicas = 0 then ''NotReady''
      else ''Unknown'')"

definition error_entry :: "string \<Rightarrow> string \<Rightarrow> DeploymentInfo" where
  \<comment> \<open>\<^verbatim>\<open>DeploymentInfo{ClusterName: clusterName, Error: msg}\<close>, the other fields zero\<close>
  "error_entry clusterName msg =
     \<lparr>ClusterName = clusterName, info_Namespace = [], info_Name = [], Replicas = 0,
      ReadyReplicas = 0, info_Image = [], Status = [], Age = [], info_Error = msg\<rparr>"

text \<open>
  One iteration of the loop over \<^verbatim>\<open>deployments.Items\<close>. The first thing evaluated that can
  fail is \<^verbatim>\<open>*deployment.Spec.Replicas\<close> in the status test: on a nil pointer the goroutine
  panics.
\<close>

definition deployment_entry ::
  "('k, 's) kube_api \<Rightarrow> string \<Rightarrow> Deployment \<Rightarrow> panic + DeploymentInfo" where
  "deployment_entry api clusterName deployment =
     (let image = (if length (Spec_Containers deployment) > 0
                   then Image (Spec_Containers deployment ! 0) else ''unknown'')
      in case Spec_Replicas deployment of
           None \<Rightarrow> Inl NilPointerDereference
         | Some replicas \<Rightarrow>
             Inr \<lparr>ClusterName = clusterName,
                  info_Namespace = meta_Namespace deployment,
                  info_Name = meta_Name deployment,
                  Replicas = replicas,
                  ReadyReplicas = Status_ReadyReplicas deployment,
                  info_Image = image,
                  Status = deploymentStatus replicas (Status_ReadyReplicas deployment),
                  Age = format_age api (CreationTimestamp deployment),
                  info_Error = []\<rparr>)"

fun items_loop ::
  "('k, 's) kube_api \<Rightarrow> string \<Rightarrow> Deployment list \<Rightarrow> DeploymentInfo list
     \<Rightarrow> panic + DeploymentInfo list" where
  "items_loop api clusterName [] result = Inr result"
| "items_loop api clusterName (deployment # rest) result =
     (case deployment_entry api clusterName deployment of
        Inl p \<Rightarrow> Inl p
      | Inr info \<Rightarrow> items_loop api clusterName rest (result @ [info]))"

definition getDeploymentsFromCluster ::
  "('k, 's) kube_api \<Rightarrow> ('r, 'k) workload_Manager \<Rightarrow> string \<Rightarrow> string \<Rightarrow> 's
     \<Rightarrow> panic + DeploymentInfo list" where
  "getDeploymentsFromCluster api m clusterName namespace s =
     (case fst (GetClient (clusterManager m) clusterName) of
        Inl err \<Rightarrow> Inr [error_entry clusterName (''Failed to get cluster client: '' @ err)]
      | Inr client \<Rightarrow>
          (case Clientset client of
             None \<Rightarrow> Inl NilPointerDereference
           | Some clientset \<Rightarrow>
               (case Deployments_List api clientset namespace s of
                  Inl err \<Rightarrow> Inr [error_entry clusterName (''Failed to list deployments: '' @ err)]
                | Inr items \<Rightarrow> items_loop api clusterName items [])))"

text \<open>
  \<^verbatim>\<open>ListDeployments\<close>: one goroutine per target, each sending its slice on the channel; the
  receiving loop appends the slices in the order \<open>sched\<close> in which they arrive. A panic in
  any goroutine ends the process, so no result is returned. With no targets given, the
  targets are the connected clusters as \<^verbatim>\<open>ListClusters\<close> reports them, in the map's
  iteration order \<open>order\<close>.
\<close>

fun collect_results ::
  "(panic + DeploymentInfo list) list \<Rightarrow> DeploymentInfo list \<Rightarrow> panic + DeploymentInfo list" where
  "collect_results [] allDeployments = Inr allDeployments"
| "collect_results (Inl p # rest) allDeployments = Inl p"
| "collect_results (Inr deployments # rest) allDeployments =
     collect_results rest (allDeployments @ deployments)"

definition query_targets ::
  "('r, 'k) workload_Manager \<Rightarrow> string list \<Rightarrow> string list \<Rightarrow> string list" where
  "query_targets m clusterNames order =
     (if length clusterNames = 0
      then map status_Name (filter status_Connected (fst (ListClusters (clusterManager m) order)))
      else clusterNames)"

definition ListDeployments ::
  "('k, 's) kube_api \<Rightarrow> ('r, 'k) workload_Manager \<Rightarrow> string list \<Rightarrow> string \<Rightarrow> string list
     \<Rightarrow> nat list \<Rightarrow> 's \<Rightarrow> panic + (DeploymentInfo list \<times> error option)" where
  "ListDeployments api m clusterNames namespace order sched s =
     (let targets = query_targets m clusterNames order;
          resultChan = arrivals sched
                         (map (\<lambda>name. getDeploymentsFromCluster api m name namespace s) targets)
      in case collect_results resultChan [] of
           Inl p \<Rightarrow> Inl p
         | Inr allDeployments \<Rightarrow> Inr (allDeployments, None))"

subsection \<open>Deploying a manifest\<close>

text \<open>
  \<^verbatim>\<open>yaml.Unmarshal\<close> into a \<^verbatim>\<open>map[string]interface{}\<close> and into an
  \<^verbatim>\<open>appsv1.Deployment\<close> are the two uses of the YAML library; \<open>yaml_value\<close> is what an
  \<^verbatim>\<open>interface{}\<close> can hold after decoding. The type assertion \<^verbatim>\<open>obj["kind"].(string)\<close>
  succeeds only on a string; a missing key gives the nil interface, on which it fails.
\<close>

datatype yaml_value =
  YNull | YBool bool | YNumber int | YString string
  | YSeq "yaml_value list" | YMap "(string \<times> yaml_value) list"

record yaml_pkg =
  Unmarshal_object :: "string \<Rightarrow> error + (string \<rightharpoonup> yaml_value)"
  Unmarshal_Deployment :: "string \<Rightarrow> error + Deployment"

fun assert_string :: "yaml_value option \<Rightarrow> string option" where
  "assert_string (Some (YString s)) = Some s"
| "assert_string _ = None"

text \<open>
  The remote calls a run issues are recorded next to the remote state, in the order in
  which they are issued.
\<close>

datatype remote_call =
  Get_call string string string
  | Update_call string Deployment
  | Create_call string Deployment

record 's world =
  remote :: 's
  calls :: "remote_call list"

definition apply_deployment ::
  "('k, 's) kube_api \<Rightarrow> string \<Rightarrow> 'k \<Rightarrow> Deployment \<Rightarrow> 's world \<Rightarrow> error option \<times> 's world" where
  \<comment> \<open>the lines \<^verbatim>\<open>existing, err := ...Get(...)\<close> to the end of the \<^verbatim>\<open>case "Deployment"\<close>\<close>
  "apply_deployment api clusterName clientset deployment w =
     (let w1 = w\<lparr>calls := calls w @ [Get_call clusterName (meta_Namespace deployment)
                                         (meta_Name deployment)]\<rparr>
      in case Deployments_Get api clientset (meta_Namespace deployment) (meta_Name deployment)
                (remote w1) of
           Inr existing \<Rightarrow>
             (let updated = deployment\<lparr>ResourceVersion := ResourceVersion existing\<rparr>
              in case Deployments_Update api clientset (meta_Namespace updated) updated (remote w1) of
                   (err, s') \<Rightarrow>
                     (case err of
                        Some e \<Rightarrow> Some (''failed to update deployment: '' @ e)
                      | None \<Rightarrow> None,
                      \<lparr>remote = s', calls = calls w1 @ [Update_call clusterName updated]\<rparr>))
         | Inl notFound \<Rightarrow>
             (case Deployments_Create api clientset (meta_Namespace deployment) deployment
                     (remote w1) of
                (err, s') \<Rightarrow>
                  (case err of
                     Some e \<Rightarrow> Some (''failed to create deployment: '' @ e)
                   | None \<Rightarrow> None,
                   \<lparr>remote = s', calls = calls w1 @ [Create_call clusterName deployment]\<rparr>)))"

definition DeployToCluster ::
  "yaml_pkg \<Rightarrow> ('k, 's) kube_api \<Rightarrow> ('r, 'k) workload_Manager \<Rightarrow> string \<Rightarrow> string \<Rightarrow> string
     \<Rightarrow> 's world \<Rightarrow> (panic + error option) \<times> 's world" where
  "DeployToCluster yaml api m clusterName namespace yamlContent w =
     (case fst (GetClient (clusterManager m) clusterName) of
        Inl err \<Rightarrow>
          (Inr (Some (''failed to get cluster client for '' @ clusterName @ '': '' @ err)), w)
      | Inr client \<Rightarrow>
     (case Unmarshal_object yaml yamlContent of
        Inl err \<Rightarrow> (Inr (Some (''failed to parse YAML: '' @ err)), w)
      | Inr obj \<Rightarrow>
     (case assert_string (obj ''kind'') of
        None \<Rightarrow> (Inr (Some (''YAML must specify a '' @ quoted ''kind'' @ '' field'')), w)
      | Some kind \<Rightarrow>
          if kind = ''Deployment'' then
            (case Unmarshal_Deployment yaml yamlContent of
               Inl err \<Rightarrow> (Inr (Some (''failed to parse Deployment YAML: '' @ err)), w)
             | Inr parsed \<Rightarrow>
                 (let deployment = (if meta_Namespace parsed = []
                                    then parsed\<lparr>meta_Namespace := namespace\<rparr> else parsed)
                  in case Clientset client of
                       None \<Rightarrow> (Inl NilPointerDereference, w)
                     | Some clientset \<Rightarrow>
                         (case apply_deployment api clusterName clientset deployment w of
                            (err, w') \<Rightarrow> (Inr err, w'))))
          else (Inr (Some (''resource kind '' @ quoted kind @ '' is not supported yet'')), w))))"

subsection \<open>Deploying to several clusters\<close>

text \<open>
  \<^verbatim>\<open>DeployToMultipleClusters\<close> starts one goroutine per requested name; the goroutines run
  concurrently and only the assignment \<^verbatim>\<open>results[name] = err\<close> is under the mutex. What
  they share is the remote side and the \<^verbatim>\<open>results\<close> map, so a goroutine is a sequence of at
  most three steps on the shared state, each taken as a whole:
  \<^item> everything in \<^verbatim>\<open>DeployToCluster\<close> up to and including the \<^verbatim>\<open>Get\<close> (or up to
    the \<^verbatim>\<open>return\<close> of an error before it);
  \<^item> the \<^verbatim>\<open>Update\<close> or the \<^verbatim>\<open>Create\<close>, chosen by what that \<^verbatim>\<open>Get\<close> returned,
    on the remote state as it is by then;
  \<^item> the assignment to \<^verbatim>\<open>results[name]\<close>.
  Steps of different goroutines interleave in any order.

  \<open>prepare_deployment\<close> is \<^verbatim>\<open>DeployToCluster\<close> before its first remote call,
  \<open>issue_Get\<close> and \<open>issue_write\<close> are the two remote calls of \<open>apply_deployment\<close>.
\<close>

definition prepare_deployment ::
  "yaml_pkg \<Rightarrow> ('r, 'k) workload_Manager \<Rightarrow> string \<Rightarrow> string \<Rightarrow> string
     \<Rightarrow> panic + (error + 'k \<times> Deployment)" where
  "prepare_deployment yaml m clusterName namespace yamlContent =
     (case fst (GetClient (clusterManager m) clusterName) of
        Inl err \<Rightarrow>
          Inr (Inl (''failed to get cluster client for '' @ clusterName @ '': '' @ err))
      | Inr client \<Rightarrow>
     (case Unmarshal_object yaml yamlContent of
        Inl err \<Rightarrow> Inr (Inl (''failed to parse YAML: '' @ err))
      | Inr obj \<Rightarrow>
     (case assert_string (obj ''kind'') of
        None \<Rightarrow> Inr (Inl (''YAML must specify a '' @ quoted ''kind'' @ '' field''))
      | Some kind \<Rightarrow>
          if kind = ''Deployment'' then
            (case Unmarshal_Deployment yaml yamlContent of
               Inl err \<Rightarrow> Inr (Inl (''failed to parse Deployment YAML: '' @ err))
             | Inr parsed \<Rightarrow>
                 (let deployment = (if meta_Namespace parsed = []
                                    then parsed\<lparr>meta_Namespace := namespace\<rparr> else parsed)
                  in case Clientset client of
                       None \<Rightarrow> Inl NilPointerDereference
                     | Some clientset \<Rightarrow> Inr (Inr (clientset, deployment))))
          else Inr (Inl (''resource kind '' @ quoted kind @ '' is not supported yet'')))))"

definition issue_Get ::
  "('k, 's) kube_api \<Rightarrow> string \<Rightarrow> 'k \<Rightarrow> Deployment \<Rightarrow> 's world
     \<Rightarrow> (error + Deployment) \<times> 's world" where
  "issue_Get api clusterName clientset deployment w =
     (Deployments_Get api clientset (meta_Namespace deployment) (meta_Name deployment) (remote w),
      w\<lparr>calls := calls w @ [Get_call clusterName (meta_Namespace deployment)
                                (meta_Name deployment)]\<rparr>)"

definition issue_write ::
  "('k, 's) kube_api \<Rightarrow> string \<Rightarrow> 'k \<Rightarrow> Deployment \<Rightarrow> error + Deployment \<Rightarrow> 's world
     \<Rightarrow> error option \<times> 's world" where
  "issue_write api clusterName clientset deployment got w =
     (case got of
        Inr existing \<Rightarrow>
          (let updated = deployment\<lparr>ResourceVersion := ResourceVersion existing\<rparr>
           in case Deployments_Update api clientset (meta_Namespace updated) updated (remote w) of
                (err, s') \<Rightarrow>
                  (case err of
                     Some e \<Rightarrow> Some (''failed to update deployment: '' @ e)
                   | None \<Rightarrow> None,
                   \<lparr>remote = s', calls = calls w @ [Update_call clusterName updated]\<rparr>))
      | Inl notFound \<Rightarrow>
          (case Deployments_Create api clientset (meta_Namespace deployment) deployment (remote w) of
             (err, s') \<Rightarrow>
               (case err of
                  Some e \<Rightarrow> Some (''failed to create deployment: '' @ e)
                | None \<Rightarrow> None,
                \<lparr>remote = s', calls = calls w @ [Create_call clusterName deployment]\<rparr>)))"

text \<open>
  Where a goroutine is: not yet at the remote; back from \<^verbatim>\<open>Get\<close> with what it returned;
  back from \<^verbatim>\<open>DeployToCluster\<close> with its result, before the assignment to the map; done.
\<close>

datatype 'k goroutine =
  Start
  | AfterGet 'k Deployment "error + Deployment"
  | Returned "error option"
  | Finished

fun progress :: "'k goroutine \<Rightarrow> nat" where
  \<comment> \<open>the number of steps behind a goroutine, counting a skipped one\<close>
  "progress Start = 0"
| "progress (AfterGet clientset deployment got) = 1"
| "progress (Returned err) = 2"
| "progress Finished = 3"

record ('k, 's) fanout =
  goroutines :: "'k goroutine list"
  results :: "string \<rightharpoonup> error option"
  shared :: "'s world"
  crashed :: "panic option"

definition goroutine_step ::
  "yaml_pkg \<Rightarrow> ('k, 's) kube_api \<Rightarrow> ('r, 'k) workload_Manager \<Rightarrow> string list \<Rightarrow> string
     \<Rightarrow> string \<Rightarrow> ('k, 's) fanout \<Rightarrow> nat \<Rightarrow> ('k, 's) fanout" where
  \<comment> \<open>the next step of goroutine \<open>i\<close>; a panic ends the process, after which nothing runs\<close>
  "goroutine_step yaml api m clusterNames namespace yamlContent c i =
     (if crashed c \<noteq> None \<or> length (goroutines c) \<le> i \<or> length clusterNames \<le> i then c
      else
        (let name = clusterNames ! i in
         case goroutines c ! i of
           Start \<Rightarrow>
             (case prepare_deployment yaml m name namespace yamlContent of
                Inl p \<Rightarrow> c\<lparr>crashed := Some p\<rparr>
              | Inr (Inl err) \<Rightarrow> c\<lparr>goroutines := (goroutines c)[i := Returned (Some err)]\<rparr>
              | Inr (Inr (clientset, deployment)) \<Rightarrow>
                  (case issue_Get api name clientset deployment (shared c) of
                     (got, w') \<Rightarrow>
                       c\<lparr>goroutines := (goroutines c)[i := AfterGet clientset deployment got],
                         shared := w'\<rparr>))
         | AfterGet clientset deployment got \<Rightarrow>
             (case issue_write api name clientset deployment got (shared c) of
                (err, w') \<Rightarrow> c\<lparr>goroutines := (goroutines c)[i := Returned err], shared := w'\<rparr>)
         | Returned err \<Rightarrow>
             c\<lparr>goroutines := (goroutines c)[i := Finished], results := (results c)(name \<mapsto> err)\<rparr>
         | Finished \<Rightarrow> c))"

text \<open>
  A schedule is the list of the goroutines whose turn it is, step by step; \<open>fanout_run\<close>
  is the state after a schedule (or after a part of one). \<^verbatim>\<open>wg.Wait()\<close> returns once
  every goroutine is done: a schedule that ends before that is not a whole run, and the
  model gives \<open>None\<close> for it. Three turns are enough for any goroutine.
\<close>

definition fanout_run ::
  "yaml_pkg \<Rightarrow> ('k, 's) kube_api \<Rightarrow> ('r, 'k) workload_Manager \<Rightarrow> string list \<Rightarrow> string
     \<Rightarrow> string \<Rightarrow> 's world \<Rightarrow> nat list \<Rightarrow> ('k, 's) fanout" where
  "fanout_run yaml api m clusterNames namespace yamlContent w sched =
     foldl (goroutine_step yaml api m clusterNames namespace yamlContent)
       \<lparr>goroutines = replicate (length clusterNames) Start, results = Map.empty,
        shared = w, crashed = None\<rparr>
       sched"

definition complete_schedule :: "nat list \<Rightarrow> nat \<Rightarrow> bool" where
  "complete_schedule sched n \<longleftrightarrow> (\<forall>i < n. 3 \<le> count_list sched i)"

definition DeployToMultipleClusters ::
  "yaml_pkg \<Rightarrow> ('k, 's) kube_api \<Rightarrow> ('r, 'k) workload_Manager \<Rightarrow> string list \<Rightarrow> string
     \<Rightarrow> string \<Rightarrow> nat list \<Rightarrow> 's world
     \<Rightarrow> ((panic + (string \<rightharpoonup> error option)) \<times> 's world) option" where
  "DeployToMultipleClusters yaml api m clusterNames namespace yamlContent sched w =
     (let c = fanout_run yaml api m clusterNames namespace yamlContent w sched
      in case crashed c of
           Some p \<Rightarrow> Some (Inl p, shared c)
         | None \<Rightarrow>
             if list_all (\<lambda>g. g = Finished) (goroutines c)
             then Some (Inr (results c), shared c)
             else None)"

section \<open>An example fleet\<close>

text \<open>
  Two clusters: \<open>a\<close>, marked default, whose liveness probe is refused, and \<open>b\<close>, which
  answers. The client library is replaced by its simplest stand-in (a REST configuration
  and a clientset are the context name); \<open>example_registry\<close> is the manager after
  \<^verbatim>\<open>connectToAllClusters\<close> when \<open>b\<close>'s attempt finishes first.
\<close>

definition example_env :: "(string, string) kube_env" where
  "example_env =
     \<lparr>os_UserHomeDir = Inr ''/home/ops'',
      filepath_Join = (\<lambda>parts. strings_Join parts ''/''),
      ClientConfig = (\<lambda>path context. Inr context),
      with_Timeout = (\<lambda>restConfig seconds. restConfig),
      NewForConfig = (\<lambda>restConfig. Inr restConfig),
      ServerVersion = (\<lambda>clientset. if clientset = ''ctx-b'' then None
                                    else Some ''connection refused'')\<rparr>"

definition example_cluster_a :: ClusterConfig where
  "example_cluster_a = \<lparr>Name = ''a'', Context = ''ctx-a'', KubeConfig = [], Region = [],
                          Environment = [], IsDefault = True\<rparr>"

definition example_cluster_b :: ClusterConfig where
  "example_cluster_b = \<lparr>Name = ''b'', Context = ''ctx-b'', KubeConfig = [], Region = [],
                          Environment = [], IsDefault = False\<rparr>"

definition example_config :: MultiClusterConfig where
  "example_config = \<lparr>Clusters = [example_cluster_a, example_cluster_b],
                      DefaultNamespace = ''default'', Timeout = 30\<rparr>"

definition example_config_down :: MultiClusterConfig where
  \<comment> \<open>a fleet of the unreachable cluster alone\<close>
  "example_config_down = \<lparr>Clusters = [example_cluster_a],
                           DefaultNamespace = ''default'', Timeout = 30\<rparr>"

definition example_registry :: "(string, string) Manager" where
  "example_registry =
     snd (connectToAllClusters example_env \<lparr>clients = Map.empty, config = example_config\<rparr> [1, 0])"


text \<open>
  The remote side of the example is an in-memory store of \<open>(clientset, object)\<close> pairs:
  \<^verbatim>\<open>Get\<close> finds an object by namespace and name, \<^verbatim>\<open>Create\<close> refuses an existing
  name and otherwise stores the object with a first resource version, \<^verbatim>\<open>Update\<close>
  replaces an existing object when the resource version it is given is the stored one.
\<close>

definition stored :: "string \<Rightarrow> string \<Rightarrow> string \<Rightarrow> string \<times> Deployment \<Rightarrow> bool" where
  "stored clientset namespace name entry \<longleftrightarrow>
     fst entry = clientset \<and> meta_Namespace (snd entry) = namespace \<and> meta_Name (snd entry) = name"

definition example_api :: "(string, (string \<times> Deployment) list) kube_api" where
  "example_api =
     \<lparr>Deployments_List = (\<lambda>clientset namespace s.
        Inr (map snd (filter (\<lambda>entry. fst entry = clientset
                                \<and> (namespace = [] \<or> meta_Namespace (snd entry) = namespace)) s))),
      Deployments_Get = (\<lambda>clientset namespace name s.
        case find (stored clientset namespace name) s of
          None \<Rightarrow> Inl (''deployments.apps '' @ quoted name @ '' not found'')
        | Some entry \<Rightarrow> Inr (snd entry)),
      Deployments_Update = (\<lambda>clientset namespace d s.
        case find (stored clientset namespace (meta_Name d)) s of
          None \<Rightarrow> (Some (''deployments.apps '' @ quoted (meta_Name d) @ '' not found''), s)
        | Some entry \<Rightarrow>
            if ResourceVersion (snd entry) \<noteq> ResourceVersion d
            then (Some ''the object has been modified'', s)
            else (None, map (\<lambda>e. if stored clientset namespace (meta_Name d) e
                                  then (clientset, d\<lparr>meta_Namespace := namespace,
                                                     ResourceVersion := ResourceVersion d @ ''1''\<rparr>)
                                  else e) s)),
      Deployments_Create = (\<lambda>clientset namespace d s.
        case find (stored clientset namespace (meta_Name d)) s of
          Some entry \<Rightarrow> (Some (''deployments.apps '' @ quoted (meta_Name d) @ '' already exists''), s)
        | None \<Rightarrow> (None, s @ [(clientset, d\<lparr>meta_Namespace := namespace,
                                              ResourceVersion := ''1''\<rparr>)])),
      format_age = (\<lambda>created. ''0s'')\<rparr>"

definition example_deployment :: Deployment where
  \<comment> \<open>what \<open>example_manifest\<close> below decodes to\<close>
  "example_deployment =
     \<lparr>meta_Namespace = [], meta_Name = ''web'', ResourceVersion = [], CreationTimestamp = 0,
      Spec_Replicas = Some 2, Spec_Containers = [\<lparr>Image = ''nginx:1.25''\<rparr>],
      Status_ReadyReplicas = 0\<rparr>"

definition example_manifest :: string where
  "example_manifest =
     ''{apiVersion: apps/v1, kind: Deployment, metadata: {name: web}, '' @
     ''spec: {replicas: 2, template: {spec: {containers: [{name: web, image: nginx:1.25}]}}}}''"

definition example_yaml :: yaml_pkg where
  "example_yaml =
     \<lparr>Unmarshal_object = (\<lambda>text.
        if text = ''{kind: Service, metadata: {name: web}}''
        then Inr [''kind'' \<mapsto> YString ''Service'',
                  ''metadata'' \<mapsto> YMap [(''name'', YString ''web'')]]
        else if text = example_manifest
        then Inr [''apiVersion'' \<mapsto> YString ''apps/v1'',
                  ''kind'' \<mapsto> YString ''Deployment'',
                  ''metadata'' \<mapsto> YMap [(''name'', YString ''web'')],
                  ''spec'' \<mapsto> YMap [(''replicas'', YNumber 2),
                    (''template'', YMap [(''spec'', YMap [(''containers'',
                       YSeq [YMap [(''name'', YString ''web''),
                                   (''image'', YString ''nginx:1.25'')]])])])]]
        else Inl ''error converting YAML to JSON''),
      Unmarshal_Deployment = (\<lambda>text.
        if text = example_manifest then Inr example_deployment
        else Inl ''error converting YAML to JSON'')\<rparr>"

definition example_api_get_refused :: "(string, (string \<times> Deployment) list) kube_api" where
  \<comment> \<open>the same store behind credentials that may write deployments but not read them\<close>
  "example_api_get_refused =
     example_api\<lparr>Deployments_Get := (\<lambda>clientset namespace name s.
        Inl (''deployments.apps '' @ quoted name @ '' is forbidden''))\<rparr>"

definition example_workloads :: "(string, string) workload_Manager" where
  "example_workloads = \<lparr>clusterManager = example_registry\<rparr>"

definition example_remote :: "(string \<times> Deployment) list" where
  \<comment> \<open>cluster \<open>b\<close> holds one deployment whose \<^verbatim>\<open>Spec.Replicas\<close> is nil\<close>
  "example_remote = [(''ctx-b'', example_deployment\<lparr>meta_Namespace := ''default'',
                                                   Spec_Replicas := None\<rparr>)]"

section \<open>An invariant of the handles\<close>

text \<open>
  \<open>handles_ok\<close>: a handle marked connected has a clientset. \<^verbatim>\<open>connectToCluster\<close> builds
  no other handles, so every registry satisfies it.
\<close>

definition handles_ok :: "('r, 'k) Manager \<Rightarrow> bool" where
  "handles_ok m \<longleftrightarrow> (\<forall>h \<in> ran (clients m). Connected h \<longrightarrow> Clientset h \<noteq> None)"

section \<open>Configuration defaults\<close>

lemma hasDefault_loop_iff: "hasDefault_loop cs \<longleftrightarrow> (\<exists>c \<in> set cs. IsDefault c)"
  by (induction cs) auto

lemma filter_IsDefault_none: "\<forall>c \<in> set cs. \<not> IsDefault c \<Longrightarrow> filter IsDefault cs = []"
  by (induction cs) auto

lemma setDefaults_Clusters_no_default:
  assumes "Clusters cfg \<noteq> []" and "\<forall>c \<in> set (Clusters cfg). \<not> IsDefault c"
  shows "Clusters (setDefaults cfg) = (hd (Clusters cfg))\<lparr>IsDefault := True\<rparr> # tl (Clusters cfg)"
proof -
  obtain c cs where cs: "Clusters cfg = c # cs"
    using assms(1) by (cases "Clusters cfg") auto
  have "\<not> hasDefault_loop (Clusters cfg)"
    using assms(2) by (simp add: hasDefault_loop_iff)
  then show ?thesis
    using cs by (simp add: setDefaults_def Let_def)
qed

text \<open>
  C6. If the cluster list is non-empty and no entry is marked default, then after
  \<^verbatim>\<open>setDefaults\<close> the first entry in input order is marked default, it is otherwise the
  entry that was given, the remaining entries are unchanged, and exactly one entry of the
  list is marked default.
\<close>

theorem setDefaults_marks_first:
  assumes "Clusters cfg \<noteq> []" and "\<forall>c \<in> set (Clusters cfg). \<not> IsDefault c"
  shows "IsDefault (hd (Clusters (setDefaults cfg)))
       \<and> hd (Clusters (setDefaults cfg)) = (hd (Clusters cfg))\<lparr>IsDefault := True\<rparr>
       \<and> tl (Clusters (setDefaults cfg)) = tl (Clusters cfg)
       \<and> length (filter IsDefault (Clusters (setDefaults cfg))) = 1"
proof -
  have none: "filter IsDefault (tl (Clusters cfg)) = []"
    using assms by (intro filter_IsDefault_none) (auto dest: list.set_sel(2))
  show ?thesis
    using none by (simp add: setDefaults_Clusters_no_default [OF assms])
qed

theorem setDefaults_marks_first_witness:
  "Clusters \<lparr>Clusters = [\<lparr>Name = ''a'', Context = ''ctx-a'', KubeConfig = [], Region = [],
                             Environment = [], IsDefault = False\<rparr>,
                           \<lparr>Name = ''b'', Context = ''ctx-b'', KubeConfig = [], Region = [],
                             Environment = [], IsDefault = False\<rparr>],
              DefaultNamespace = [], Timeout = 0\<rparr> \<noteq> []
   \<and> IsDefault (hd (Clusters (setDefaults
        \<lparr>Clusters = [\<lparr>Name = ''a'', Context = ''ctx-a'', KubeConfig = [], Region = [],
                       Environment = [], IsDefault = False\<rparr>,
                     \<lparr>Name = ''b'', Context = ''ctx-b'', KubeConfig = [], Region = [],
                       Environment = [], IsDefault = False\<rparr>],
         DefaultNamespace = [], Timeout = 0\<rparr>)))
   \<and> length (filter IsDefault (Clusters (setDefaults
        \<lparr>Clusters = [\<lparr>Name = ''a'', Context = ''ctx-a'', KubeConfig = [], Region = [],
                       Environment = [], IsDefault = False\<rparr>,
                     \<lparr>Name = ''b'', Context = ''ctx-b'', KubeConfig = [], Region = [],
                       Environment = [], IsDefault = False\<rparr>],
         DefaultNamespace = [], Timeout = 0\<rparr>))) = 1"
  using setDefaults_marks_first
    [of "\<lparr>Clusters = [\<lparr>Name = ''a'', Context = ''ctx-a'', KubeConfig = [], Region = [],
                        Environment = [], IsDefault = False\<rparr>,
                      \<lparr>Name = ''b'', Context = ''ctx-b'', KubeConfig = [], Region = [],
                        Environment = [], IsDefault = False\<rparr>],
          DefaultNamespace = [], Timeout = 0\<rparr>"]
  by simp

section \<open>Deployment status\<close>



section \<open>The connection registry\<close>

lemma connectToCluster_Config: "Config (connectToCluster env cfg cc) = cc"
  by (simp add: connectToCluster_def Let_def split: sum.splits option.splits)

lemma connectToCluster_handle:
  "(Connected (connectToCluster env cfg cc) \<longrightarrow>
      Error (connectToCluster env cfg cc) = None \<and> Clientset (connectToCluster env cfg cc) \<noteq> None)
   \<and> (\<not> Connected (connectToCluster env cfg cc) \<longrightarrow>
      Error (connectToCluster env cfg cc) \<noteq> None \<and> Clientset (connectToCluster env cfg cc) = None)"
  by (simp add: connectToCluster_def Let_def split: sum.splits option.splits)

lemma arrivals_mset:
  assumes "valid_schedule sched (length sent)"
  shows "mset (arrivals sched sent) = mset sent"
proof -
  have "mset (arrivals sched sent) = image_mset ((!) sent) (mset sched)"
    by (simp add: arrivals_def)
  also have "\<dots> = image_mset ((!) sent) (mset [0..<length sent])"
    using assms by (simp add: valid_schedule_def)
  also have "\<dots> = mset (map ((!) sent) [0..<length sent])"
    by simp
  also have "\<dots> = mset sent"
    by (simp add: map_nth)
  finally show ?thesis .
qed

lemma foldl_receive_count:
  "snd (snd (foldl receive (m, errs, n) xs)) = n + int (length (filter Connected xs))"
  by (induction xs arbitrary: m errs n) (auto simp: receive_def Let_def)

lemma foldl_receive_errors:
  "fst (snd (foldl receive (m, errs, n) xs))
     = errs @ map failure_message (filter (\<lambda>c. \<not> Connected c) xs)"
  by (induction xs arbitrary: m errs n) (auto simp: receive_def Let_def)

lemma foldl_receive_config:
  "config (fst (foldl receive (m, errs, n) xs)) = config m"
  by (induction xs arbitrary: m errs n) (auto simp: receive_def Let_def)

lemma foldl_receive_dom:
  "dom (clients (fst (foldl receive (m, errs, n) xs)))
     = dom (clients m) \<union> (\<lambda>c. Name (Config c)) ` set xs"
  by (induction xs arbitrary: m errs n) (auto simp: receive_def Let_def)

lemma foldl_receive_other:
  "k \<notin> (\<lambda>c. Name (Config c)) ` set xs \<Longrightarrow>
   clients (fst (foldl receive (m, errs, n) xs)) k = clients m k"
  by (induction xs arbitrary: m errs n) (auto simp: receive_def Let_def)

lemma foldl_receive_lookup:
  "distinct (map (\<lambda>c. Name (Config c)) xs) \<Longrightarrow> c \<in> set xs \<Longrightarrow>
   clients (fst (foldl receive (m, errs, n) xs)) (Name (Config c)) = Some c"
proof (induction xs arbitrary: m errs n)
  case Nil
  then show ?case by simp
next
  case (Cons x xs)
  show ?case
  proof (cases "c \<in> set xs")
    case True
    then show ?thesis
      using Cons by (auto simp: receive_def Let_def)
  next
    case False
    then have cx: "c = x" using Cons.prems by simp
    obtain m' e' n' where r: "receive (m, errs, n) x = (m', e', n')"
      by (cases "receive (m, errs, n) x")
    have cm: "clients m' = (clients m)(Name (Config x) \<mapsto> x)"
      using r by (auto simp: receive_def Let_def split: if_splits)
    have "Name (Config x) \<notin> (\<lambda>c. Name (Config c)) ` set xs"
      using Cons.prems(1) by auto
    then have "clients (fst (foldl receive (m', e', n') xs)) (Name (Config x))
                 = clients m' (Name (Config x))"
      by (rule foldl_receive_other)
    then show ?thesis
      unfolding cx by (simp add: r cm)
  qed
qed


lemma connectToAllClusters_parts:
  assumes "valid_schedule sched (length (Clusters (config m)))"
  obtains arrived where
    "mset arrived = mset (map (connectToCluster env (config m)) (Clusters (config m)))"
    "snd (connectToAllClusters env m sched) = fst (foldl receive (m, [], 0) arrived)"
    "fst (connectToAllClusters env m sched) =
       (if filter Connected arrived = [] then
          Some (''failed to connect to any clusters:'' @ newline
                  @ strings_Join (map failure_message arrived) newline)
        else None)"
proof -
  define sent where "sent = map (connectToCluster env (config m)) (Clusters (config m))"
  define arrived where "arrived = arrivals sched sent"
  obtain m' errs n where f: "foldl receive (m, [], 0) arrived = (m', errs, n)"
    by (cases "foldl receive (m, [], 0) arrived")
  have n: "n = int (length (filter Connected arrived))"
    using foldl_receive_count [of m "[]" 0 arrived] by (simp add: f)
  have errs: "errs = map failure_message (filter (\<lambda>c. \<not> Connected c) arrived)"
    using foldl_receive_errors [of m "[]" 0 arrived] by (simp add: f)
  have 1: "mset arrived = mset sent"
    unfolding arrived_def by (rule arrivals_mset) (simp add: sent_def assms)
  have 2: "snd (connectToAllClusters env m sched) = fst (foldl receive (m, [], 0) arrived)"
    by (simp add: connectToAllClusters_def Let_def arrived_def [symmetric] sent_def [symmetric] f)
  have "filter Connected arrived = [] \<Longrightarrow> filter (\<lambda>c. \<not> Connected c) arrived = arrived"
    by (simp add: filter_empty_conv)
  then have 3: "fst (connectToAllClusters env m sched) =
       (if filter Connected arrived = [] then
          Some (''failed to connect to any clusters:'' @ newline
                  @ strings_Join (map failure_message arrived) newline)
        else None)"
    by (simp add: connectToAllClusters_def Let_def arrived_def [symmetric] sent_def [symmetric]
          f n errs)
  show ?thesis
    using that [of arrived] 1 2 3 by (simp add: sent_def)
qed

lemma strings_Join_contains:
  "x \<in> set xs \<Longrightarrow> \<exists>before after. strings_Join xs sep = before @ x @ after"
proof (induction xs sep rule: strings_Join.induct)
  case (1 sep)
  then show ?case by simp
next
  case (2 y sep)
  then have "strings_Join [y] sep = [] @ x @ []" by simp
  then show ?case by blast
next
  case (3 y z zs sep)
  show ?case
  proof (cases "x = y")
    case True
    then have "strings_Join (y # z # zs) sep = [] @ x @ (sep @ strings_Join (z # zs) sep)"
      by simp
    then show ?thesis by blast
  next
    case False
    then have "x \<in> set (z # zs)" using "3.prems" by simp
    then obtain before after where "strings_Join (z # zs) sep = before @ x @ after"
      using "3.IH" by blast
    then have "strings_Join (y # z # zs) sep = (y @ sep @ before) @ x @ after"
      by simp
    then show ?thesis by blast
  qed
qed

lemma failure_message_text:
  "failure_message (connectToCluster env cfg cc) =
     ''Failed to connect to '' @ Name cc @ '': ''
       @ (case Error (connectToCluster env cfg cc) of None \<Rightarrow> ''<nil>'' | Some e \<Rightarrow> e)"
  by (simp add: failure_message_def fmt_v_def connectToCluster_Config)

text \<open>
  C1. In every run of \<^verbatim>\<open>NewManager\<close> (every order in which the connection attempts
  finish), a registry is returned exactly when at least one configured endpoint's
  attempt ends connected, so also when only some do. Exactly when none does, the result is
  the single error whose text is the two fixed prefixes followed by one line per endpoint,
  in order of arrival, each line naming the endpoint and giving the error of its attempt.
  Whenever an error is returned, every configured endpoint's name and error occur in it.
\<close>

theorem NewManager_iff_some_connected:
  assumes "valid_schedule sched (length (Clusters cfg))"
  shows "((\<exists>m. NewManager env cfg sched = Inr m)
            \<longleftrightarrow> (\<exists>cc \<in> set (Clusters cfg). Connected (connectToCluster env cfg cc)))
       \<and> ((\<exists>msgs. mset msgs
                     = mset (map (\<lambda>cc. ''Failed to connect to '' @ Name cc @ '': ''
                                     @ (case Error (connectToCluster env cfg cc) of
                                          None \<Rightarrow> ''<nil>'' | Some e \<Rightarrow> e))
                              (Clusters cfg))
                 \<and> NewManager env cfg sched =
                     Inl (''failed to connect to clusters: failed to connect to any clusters:''
                            @ [CHR 0x0A] @ strings_Join msgs [CHR 0x0A]))
            \<longleftrightarrow> (\<forall>cc \<in> set (Clusters cfg). \<not> Connected (connectToCluster env cfg cc)))
       \<and> (\<forall>err. NewManager env cfg sched = Inl err \<longrightarrow>
             (\<forall>cc \<in> set (Clusters cfg). \<exists>e before after.
                 Error (connectToCluster env cfg cc) = Some e
               \<and> err = before @ ''Failed to connect to '' @ Name cc @ '': '' @ e @ after))"
proof -
  define m0 :: "('a, 'b) Manager" where "m0 = \<lparr>clients = Map.empty, config = cfg\<rparr>"
  have cfg: "config m0 = cfg" by (simp add: m0_def)
  obtain arrived where
    a: "mset arrived = mset (map (connectToCluster env cfg) (Clusters cfg))" and
    e: "fst (connectToAllClusters env m0 sched) =
         (if filter Connected arrived = [] then
            Some (''failed to connect to any clusters:'' @ newline
                    @ strings_Join (map failure_message arrived) newline)
          else None)"
    using connectToAllClusters_parts [of sched m0 env] assms by (auto simp: cfg)
  have s: "set arrived = connectToCluster env cfg ` set (Clusters cfg)"
    using mset_eq_setD [OF a] by simp
  have none: "filter Connected arrived = []
                \<longleftrightarrow> (\<forall>cc \<in> set (Clusters cfg). \<not> Connected (connectToCluster env cfg cc))"
    by (auto simp: filter_empty_conv s)
  let ?text = "\<lambda>cc. ''Failed to connect to '' @ Name cc @ '': ''
                       @ (case Error (connectToCluster env cfg cc) of
                            None \<Rightarrow> ''<nil>'' | Some e \<Rightarrow> e)"
  have msgs: "mset (map failure_message arrived) = mset (map ?text (Clusters cfg))"
  proof -
    have "mset (map failure_message arrived) = image_mset failure_message (mset arrived)"
      by simp
    also have "\<dots> = image_mset failure_message (mset (map (connectToCluster env cfg) (Clusters cfg)))"
      by (simp only: a)
    also have "\<dots> = mset (map (\<lambda>cc. failure_message (connectToCluster env cfg cc)) (Clusters cfg))"
      by (simp add: image_mset.compositionality comp_def)
    also have "\<dots> = mset (map ?text (Clusters cfg))"
      by (simp only: failure_message_text)
    finally show ?thesis .
  qed
  obtain r m' where c: "connectToAllClusters env m0 sched = (r, m')"
    by (cases "connectToAllClusters env m0 sched")
  have r: "r = (if filter Connected arrived = [] then
            Some (''failed to connect to any clusters:'' @ newline
                    @ strings_Join (map failure_message arrived) newline)
          else None)"
    using e by (simp add: c)
  have N: "NewManager env cfg sched =
             (case r of Some err \<Rightarrow> Inl (''failed to connect to clusters: '' @ err) | None \<Rightarrow> Inr m')"
    by (simp add: NewManager_def Let_def m0_def [symmetric] c split: option.splits)
  show ?thesis
  proof (cases "filter Connected arrived = []")
    case True
    then have L: "NewManager env cfg sched =
                 Inl (''failed to connect to clusters: failed to connect to any clusters:''
                        @ [CHR 0x0A] @ strings_Join (map failure_message arrived) [CHR 0x0A])"
      by (simp add: N r newline_def)
    have 2: "\<exists>msgs. mset msgs = mset (map ?text (Clusters cfg))
                 \<and> NewManager env cfg sched =
                     Inl (''failed to connect to clusters: failed to connect to any clusters:''
                            @ [CHR 0x0A] @ strings_Join msgs [CHR 0x0A])"
      using msgs L by (intro exI [of _ "map failure_message arrived"] conjI)
    have 1: "\<not> (\<exists>m. NewManager env cfg sched = Inr m)"
      by (simp add: L)
    have 3: "\<exists>e before after. Error (connectToCluster env cfg cc) = Some e
               \<and> err = before @ ''Failed to connect to '' @ Name cc @ '': '' @ e @ after"
      if err: "NewManager env cfg sched = Inl err" and cc: "cc \<in> set (Clusters cfg)" for err cc
    proof -
      have "\<not> Connected (connectToCluster env cfg cc)"
        using True none cc by blast
      then obtain e where e: "Error (connectToCluster env cfg cc) = Some e"
        using connectToCluster_handle [of env cfg cc] by auto
      have "?text cc \<in> set (map failure_message arrived)"
        using cc s by (force simp: failure_message_text)
      then obtain before after where
        "strings_Join (map failure_message arrived) [CHR 0x0A] = before @ ?text cc @ after"
        using strings_Join_contains by blast
      then have "err = (''failed to connect to clusters: failed to connect to any clusters:''
                         @ [CHR 0x0A] @ before)
                       @ ''Failed to connect to '' @ Name cc @ '': '' @ e @ after"
        using err L e by simp
      then show ?thesis
        using e by blast
    qed
    show ?thesis
      using True none 1 2 3 by blast
  next
    case False
    then have "NewManager env cfg sched = Inr m'"
      by (simp add: N r)
    then show ?thesis
      using False none by auto
  qed
qed

lemma example_Clusters: "Clusters example_config = [example_cluster_a, example_cluster_b]"
  by (simp add: example_config_def)

lemma example_Names: "Name example_cluster_a = ''a''" "Name example_cluster_b = ''b''"
  by (simp_all add: example_cluster_a_def example_cluster_b_def)

lemma valid_schedule_example: "valid_schedule [1, 0] (length (Clusters example_config))"
  by (simp add: valid_schedule_def example_config_def upt_rec)

lemma example_connect_a:
  "connectToCluster example_env cfg example_cluster_a
     = \<lparr>Config = example_cluster_a, RestConfig = None, Clientset = None,
        Connected = False, Error = Some ''failed to connect to cluster: connection refused''\<rparr>"
  by (simp add: connectToCluster_def example_env_def example_cluster_a_def default_kubeconfig_def
      expand_tilde_def strings_HasPrefix_def Let_def)

lemma example_connect_b:
  "connectToCluster example_env cfg example_cluster_b
     = \<lparr>Config = example_cluster_b, RestConfig = Some ''ctx-b'', Clientset = Some ''ctx-b'',
        Connected = True, Error = None\<rparr>"
  by (simp add: connectToCluster_def example_env_def example_cluster_b_def default_kubeconfig_def
      expand_tilde_def strings_HasPrefix_def Let_def)

theorem NewManager_iff_some_connected_witness:
  "valid_schedule [1, 0] (length (Clusters example_config))
   \<and> (\<exists>m. NewManager example_env example_config [1, 0] = Inr m)
   \<and> valid_schedule [0] (length (Clusters example_config_down))
   \<and> NewManager example_env example_config_down [0]
       = Inl (''failed to connect to clusters: failed to connect to any clusters:'' @ [CHR 0x0A]
                @ ''Failed to connect to a: failed to connect to cluster: connection refused'')"
proof -
  have "Connected (connectToCluster example_env example_config example_cluster_b)"
    by (simp add: example_connect_b)
  moreover have "example_cluster_b \<in> set (Clusters example_config)"
    by (simp add: example_config_def)
  ultimately have "\<exists>cc \<in> set (Clusters example_config).
      Connected (connectToCluster example_env example_config cc)"
    by blast
  then have up: "\<exists>m. NewManager example_env example_config [1, 0] = Inr m"
    using NewManager_iff_some_connected [OF valid_schedule_example, of example_env] by blast
  have cl: "Clusters example_config_down = [example_cluster_a]"
    by (simp add: example_config_down_def)
  have v: "valid_schedule [0] (length (Clusters example_config_down))"
    by (simp add: valid_schedule_def cl)
  have "\<forall>cc \<in> set (Clusters example_config_down).
          \<not> Connected (connectToCluster example_env example_config_down cc)"
    by (simp add: cl example_connect_a)
  then obtain msgs where
    m: "mset msgs = mset (map (\<lambda>cc. ''Failed to connect to '' @ Name cc @ '': ''
                                     @ (case Error (connectToCluster example_env example_config_down cc) of
                                          None \<Rightarrow> ''<nil>'' | Some e \<Rightarrow> e))
                              (Clusters example_config_down))" and
    n: "NewManager example_env example_config_down [0] =
          Inl (''failed to connect to clusters: failed to connect to any clusters:''
                 @ [CHR 0x0A] @ strings_Join msgs [CHR 0x0A])"
    using NewManager_iff_some_connected [OF v, of example_env] by blast
  have "msgs = [''Failed to connect to a: failed to connect to cluster: connection refused'']"
    using m by (simp add: cl example_connect_a example_Names)
  then have "NewManager example_env example_config_down [0]
       = Inl (''failed to connect to clusters: failed to connect to any clusters:'' @ [CHR 0x0A]
                @ ''Failed to connect to a: failed to connect to cluster: connection refused'')"
    using n by simp
  then show ?thesis
    using up v valid_schedule_example by blast
qed

lemma example_registry_eval:
  "clients example_registry =
     [''b'' \<mapsto> connectToCluster example_env example_config example_cluster_b,
      ''a'' \<mapsto> connectToCluster example_env example_config example_cluster_a]"
  "config example_registry = example_config"
  "fst (connectToAllClusters example_env \<lparr>clients = Map.empty, config = example_config\<rparr> [1, 0]) = None"
  by (simp_all add: example_registry_def connectToAllClusters_def arrivals_def receive_def Let_def
      example_connect_a example_connect_b example_Clusters example_Names)


lemma GetClient_frame: "snd (GetClient m name) = m"
  by (simp add: GetClient_def split: option.splits)

lemma GetDefaultClient_frame: "snd (GetDefaultClient m order) = m"
  by (simp add: GetDefaultClient_def GetClient_frame split: option.splits)

lemma ListClusters_frame: "snd (ListClusters m order) = m"
  by (simp add: ListClusters_def)

lemma TestConnections_frame: "snd (TestConnections env m order) = m"
  by (simp add: TestConnections_def split: sum.splits)

text \<open>
  C9. With unique cluster names, after \<^verbatim>\<open>connectToAllClusters\<close> has run on the fresh
  manager (whatever it returns) the \<^verbatim>\<open>clients\<close> map has exactly the configured names as
  keys, one handle per configured cluster, namely the result of that cluster's attempt; a
  handle that is not connected carries an error and a connected one carries none. The
  registry that \<^verbatim>\<open>NewManager\<close> returns is this manager, and \<^verbatim>\<open>GetClient\<close>,
  \<^verbatim>\<open>GetDefaultClient\<close>, \<^verbatim>\<open>ListClusters\<close> and \<^verbatim>\<open>TestConnections\<close> leave it as it is.
\<close>

theorem registry_one_handle_per_cluster:
  assumes "valid_schedule sched (length (Clusters cfg))"
      and "distinct (map Name (Clusters cfg))"
  shows "let m = snd (connectToAllClusters env \<lparr>clients = Map.empty, config = cfg\<rparr> sched) in
           dom (clients m) = Name ` set (Clusters cfg)
         \<and> card (dom (clients m)) = length (Clusters cfg)
         \<and> (\<forall>cc \<in> set (Clusters cfg). clients m (Name cc) = Some (connectToCluster env cfg cc))
         \<and> (\<forall>h \<in> ran (clients m). (Connected h \<longrightarrow> Error h = None)
                                   \<and> (\<not> Connected h \<longrightarrow> Error h \<noteq> None))
         \<and> (\<forall>r. NewManager env cfg sched = Inr r \<longrightarrow> r = m)
         \<and> (\<forall>name order env'.
               snd (GetClient m name) = m \<and> snd (GetDefaultClient m order) = m
             \<and> snd (ListClusters m order) = m \<and> snd (TestConnections env' m order) = m)"
proof -
  define m0 :: "('a, 'b) Manager" where "m0 = \<lparr>clients = Map.empty, config = cfg\<rparr>"
  define m where "m = snd (connectToAllClusters env m0 sched)"
  have cfg: "config m0 = cfg" and empty: "clients m0 = Map.empty"
    by (simp_all add: m0_def)
  obtain arrived where
    a: "mset arrived = mset (map (connectToCluster env cfg) (Clusters cfg))" and
    f: "m = fst (foldl receive (m0, [], 0) arrived)"
    using connectToAllClusters_parts [of sched m0 env] assms(1) by (auto simp: cfg m_def)
  have s: "set arrived = connectToCluster env cfg ` set (Clusters cfg)"
    using mset_eq_setD [OF a] by simp
  have names: "map (\<lambda>c. Name (Config c)) (map (connectToCluster env cfg) (Clusters cfg))
                 = map Name (Clusters cfg)"
    by (simp add: connectToCluster_Config)
  have "mset (map (\<lambda>c. Name (Config c)) arrived) = mset (map Name (Clusters cfg))"
    using a names by (metis mset_map)
  then have d: "distinct (map (\<lambda>c. Name (Config c)) arrived)"
    using assms(2) by (metis mset_eq_imp_distinct_iff)
  have 1: "dom (clients m) = Name ` set (Clusters cfg)"
    by (simp add: f foldl_receive_dom empty s image_image connectToCluster_Config)
  have 2: "card (dom (clients m)) = length (Clusters cfg)"
    using distinct_card [OF assms(2)] by (simp add: 1)
  have 3: "clients m (Name cc) = Some (connectToCluster env cfg cc)" if "cc \<in> set (Clusters cfg)" for cc
  proof -
    have "connectToCluster env cfg cc \<in> set arrived"
      using that by (simp add: s)
    from foldl_receive_lookup [OF d this, of m0 "[]" 0] show ?thesis
      by (simp add: f connectToCluster_Config)
  qed
  have 4: "(Connected h \<longrightarrow> Error h = None) \<and> (\<not> Connected h \<longrightarrow> Error h \<noteq> None)"
    if "h \<in> ran (clients m)" for h
  proof -
    obtain k where k: "clients m k = Some h"
      using \<open>h \<in> ran (clients m)\<close> by (auto simp: ran_def)
    then have "k \<in> Name ` set (Clusters cfg)"
      using 1 by auto
    then obtain cc where "cc \<in> set (Clusters cfg)" "k = Name cc"
      by auto
    then have "h = connectToCluster env cfg cc"
      using 3 k by simp
    then show ?thesis
      using connectToCluster_handle [of env cfg cc] by simp
  qed
  have 5: "r = m" if "NewManager env cfg sched = Inr r" for r
    using that
    by (auto simp: NewManager_def Let_def m_def m0_def split: prod.splits option.splits)
  show ?thesis
    unfolding Let_def m0_def [symmetric] m_def [symmetric]
    using 1 2 3 4 5
    by (simp add: GetClient_frame GetDefaultClient_frame ListClusters_frame TestConnections_frame)
qed

theorem registry_one_handle_per_cluster_witness:
  "valid_schedule [1, 0] (length (Clusters example_config))
   \<and> distinct (map Name (Clusters example_config))
   \<and> dom (clients example_registry) = {''a'', ''b''}
   \<and> clients example_registry ''a''
       = Some \<lparr>Config = example_cluster_a, RestConfig = None, Clientset = None, Connected = False,
                Error = Some ''failed to connect to cluster: connection refused''\<rparr>
   \<and> snd (GetClient example_registry ''a'') = example_registry"
proof -
  have d: "distinct (map Name (Clusters example_config))"
    by (simp add: example_Clusters example_Names)
  have "example_cluster_a \<in> set (Clusters example_config)"
    by (simp add: example_Clusters)
  then show ?thesis
    using registry_one_handle_per_cluster [OF valid_schedule_example d, of example_env]
      valid_schedule_example d
    unfolding Let_def example_registry_def [symmetric]
    by (auto simp: example_Clusters example_Names example_connect_a)
qed


lemma range_clients_valid:
  assumes "valid_order order m"
  shows "map snd (range_clients m order) = map (\<lambda>name. the (clients m name)) order"
proof -
  have "set order \<subseteq> dom (clients m)"
    using assms by (simp add: valid_order_def)
  then show ?thesis
    unfolding range_clients_def
  proof (induction order)
    case Nil
    then show ?case by simp
  next
    case (Cons name order)
    then obtain h where "clients m name = Some h"
      by auto
    then show ?case
      using Cons by simp
  qed
qed

lemma ran_valid_order:
  assumes "valid_order order m"
  shows "ran (clients m) = (\<lambda>name. the (clients m name)) ` set order"
  using assms by (force simp: valid_order_def ran_def dom_def image_iff)

text \<open>
  C2, as the code has it. If some configured cluster is marked default, the first such entry
  decides: \<^verbatim>\<open>GetDefaultClient\<close> is \<^verbatim>\<open>GetClient\<close> of its name, which is its handle when
  that handle is connected and an error otherwise, without looking at any other endpoint.
  Only if no entry is marked default does it return the first connected handle that the
  iteration over the map meets, and then it fails exactly when no handle is connected.
\<close>

theorem GetDefaultClient_cases:
  assumes "valid_order order m"
  shows "(\<forall>cc. find IsDefault (Clusters (config m)) = Some cc \<longrightarrow>
            GetDefaultClient m order = GetClient m (Name cc)
          \<and> (\<forall>h. clients m (Name cc) = Some h \<and> Connected h
                 \<longrightarrow> fst (GetDefaultClient m order) = Inr h)
          \<and> ((\<forall>h. clients m (Name cc) = Some h \<longrightarrow> \<not> Connected h)
                 \<longrightarrow> isl (fst (GetDefaultClient m order))))
       \<and> (find IsDefault (Clusters (config m)) = None \<longrightarrow>
            (isl (fst (GetDefaultClient m order)) \<longleftrightarrow> (\<forall>h \<in> ran (clients m). \<not> Connected h))
          \<and> (\<forall>h. fst (GetDefaultClient m order) = Inr h \<longrightarrow>
                 Connected h
               \<and> (\<exists>i < length order. clients m (order ! i) = Some h
                     \<and> (\<forall>j < i. \<forall>h'. clients m (order ! j) = Some h' \<longrightarrow> \<not> Connected h'))))"
proof (intro conjI allI impI)
  fix cc assume "find IsDefault (Clusters (config m)) = Some cc"
  then show eq: "GetDefaultClient m order = GetClient m (Name cc)"
    by (simp add: GetDefaultClient_def)
  show "fst (GetDefaultClient m order) = Inr h" if "clients m (Name cc) = Some h \<and> Connected h" for h
    using that by (simp add: eq GetClient_def)
  show "isl (fst (GetDefaultClient m order))" if "\<forall>h. clients m (Name cc) = Some h \<longrightarrow> \<not> Connected h"
    using that by (simp add: eq GetClient_def split: option.splits)
next
  let ?hs = "map (\<lambda>name. the (clients m name)) order"
  assume none: "find IsDefault (Clusters (config m)) = None"
  have G: "GetDefaultClient m order =
             (case find Connected ?hs of
                Some client \<Rightarrow> (Inr client, m)
              | None \<Rightarrow> (Inl ''no connected clusters available'', m))"
    by (simp add: GetDefaultClient_def none range_clients_valid [OF assms])
  have "isl (fst (GetDefaultClient m order)) \<longleftrightarrow> find Connected ?hs = None"
    by (simp add: G split: option.splits)
  also have "\<dots> \<longleftrightarrow> (\<forall>h \<in> ran (clients m). \<not> Connected h)"
    by (auto simp: find_None_iff ran_valid_order [OF assms])
  finally show "isl (fst (GetDefaultClient m order)) \<longleftrightarrow> (\<forall>h \<in> ran (clients m). \<not> Connected h)" .
  fix h assume "fst (GetDefaultClient m order) = Inr h"
  then have "find Connected ?hs = Some h"
    by (simp add: G split: option.splits)
  then obtain i where i: "i < length order" "Connected (?hs ! i)" "h = ?hs ! i"
      "\<forall>j < i. \<not> Connected (?hs ! j)"
    by (auto simp: find_Some_iff)
  have dom: "order ! j \<in> dom (clients m)" if "j < length order" for j
    using assms that by (auto simp: valid_order_def)
  show "Connected h" using i by simp
  have "clients m (order ! i) = Some h"
    using dom [OF i(1)] i by auto
  moreover have "\<not> Connected h'" if "j < i" "clients m (order ! j) = Some h'" for j h'
    using i(1,4) that by auto
  ultimately show "\<exists>i < length order. clients m (order ! i) = Some h
      \<and> (\<forall>j < i. \<forall>h'. clients m (order ! j) = Some h' \<longrightarrow> \<not> Connected h')"
    using i(1) by blast
qed

lemma example_valid_order: "valid_order [''b'', ''a''] example_registry"
  by (auto simp: valid_order_def example_registry_eval)

theorem GetDefaultClient_cases_witness:
  "valid_order [''b'', ''a''] example_registry
   \<and> GetDefaultClient example_registry [''b'', ''a''] = GetClient example_registry ''a''"
proof -
  have "find IsDefault (Clusters (config example_registry)) = Some example_cluster_a"
    by (simp add: example_registry_eval example_Clusters example_cluster_a_def)
  then show ?thesis
    using GetDefaultClient_cases [OF example_valid_order] example_valid_order
    by (simp add: example_Names)
qed

text \<open>
  Against C2 as stated, in the registry built for clusters \<open>a\<close> (marked default,
  unreachable) and \<open>b\<close> (reachable): \<open>b\<close> is connected, yet \<^verbatim>\<open>GetDefaultClient\<close>
  returns the error for \<open>a\<close> and not the handle of \<open>b\<close>.
\<close>

theorem GetDefaultClient_default_down_no_fallback:
  "NewManager example_env example_config [1, 0] = Inr example_registry
   \<and> clients example_registry ''b''
       = Some \<lparr>Config = example_cluster_b, RestConfig = Some ''ctx-b'', Clientset = Some ''ctx-b'',
                Connected = True, Error = None\<rparr>
   \<and> fst (GetDefaultClient example_registry [''b'', ''a''])
       = Inl (''cluster '' @ quoted ''a''
                @ '' is not connected: failed to connect to cluster: connection refused'')"
proof -
  have "NewManager example_env example_config [1, 0] = Inr example_registry"
  proof -
    obtain r m' where c: "connectToAllClusters example_env
        \<lparr>clients = Map.empty, config = example_config\<rparr> [1, 0] = (r, m')"
      by (cases "connectToAllClusters example_env
        \<lparr>clients = Map.empty, config = example_config\<rparr> [1, 0]")
    have "r = None"
      using example_registry_eval(3) unfolding c by simp
    moreover have "m' = example_registry"
      unfolding example_registry_def c by simp
    ultimately show ?thesis
      unfolding NewManager_def Let_def c by simp
  qed
  moreover have "find IsDefault (Clusters (config example_registry)) = Some example_cluster_a"
    by (simp add: example_registry_eval example_Clusters example_cluster_a_def)
  then have "fst (GetDefaultClient example_registry [''b'', ''a''])
       = Inl (''cluster '' @ quoted ''a''
                @ '' is not connected: failed to connect to cluster: connection refused'')"
    by (simp add: GetDefaultClient_def GetClient_def example_registry_eval example_Names
        example_connect_a fmt_v_def)
  ultimately show ?thesis
    by (simp add: example_registry_eval example_connect_b)
qed

section \<open>Listing deployments across clusters\<close>

lemma items_loop_panics:
  "\<exists>d \<in> set items. Spec_Replicas d = None \<Longrightarrow>
   items_loop api c items acc = Inl NilPointerDereference"
proof (induction items arbitrary: acc)
  case Nil
  then show ?case by simp
next
  case (Cons d items)
  show ?case
  proof (cases "Spec_Replicas d")
    case None
    then show ?thesis by (simp add: deployment_entry_def)
  next
    case (Some n)
    then have "\<exists>d \<in> set items. Spec_Replicas d = None"
      using Cons.prems by auto
    then show ?thesis
      using Cons.IH Some by (simp add: deployment_entry_def Let_def)
  qed
qed

lemma items_loop_returns:
  "\<forall>d \<in> set items. Spec_Replicas d \<noteq> None \<Longrightarrow>
   \<exists>infos. items_loop api c items acc = Inr (acc @ infos)
         \<and> map Inr infos = map (deployment_entry api c) items"
proof (induction items arbitrary: acc)
  case Nil
  then show ?case by simp
next
  case (Cons d items)
  then obtain n where n: "Spec_Replicas d = Some n"
    by auto
  obtain info where info: "deployment_entry api c d = Inr info"
    using n by (simp add: deployment_entry_def Let_def)
  obtain infos where "items_loop api c items (acc @ [info]) = Inr ((acc @ [info]) @ infos)"
      "map Inr infos = map (deployment_entry api c) items"
    using Cons.IH [of "acc @ [info]"] Cons.prems by auto
  then show ?case
    using info by (intro exI [of _ "info # infos"]) simp
qed

text \<open>
  C10. When the target's handle is obtained and the remote list succeeds,
  \<^verbatim>\<open>getDeploymentsFromCluster\<close> ends in a nil-pointer dereference exactly when some
  listed deployment has no desired-replica count; if every listed deployment has one, it
  returns one record per deployment, in order. So the per-item processing is total only
  under that precondition, and the panic is reachable.
\<close>

theorem getDeploymentsFromCluster_nil_replicas:
  assumes "fst (GetClient (clusterManager m) clusterName) = Inr client"
      and "Clientset client = Some clientset"
      and "Deployments_List api clientset namespace s = Inr items"
  shows "(getDeploymentsFromCluster api m clusterName namespace s = Inl NilPointerDereference
            \<longleftrightarrow> (\<exists>d \<in> set items. Spec_Replicas d = None))
       \<and> ((\<forall>d \<in> set items. Spec_Replicas d \<noteq> None) \<longrightarrow>
            (\<exists>infos. getDeploymentsFromCluster api m clusterName namespace s = Inr infos
                    \<and> map Inr infos = map (deployment_entry api clusterName) items))"
proof -
  have g: "getDeploymentsFromCluster api m clusterName namespace s
             = items_loop api clusterName items []"
    using assms by (simp add: getDeploymentsFromCluster_def)
  show ?thesis
  proof (cases "\<exists>d \<in> set items. Spec_Replicas d = None")
    case True
    then show ?thesis
      using items_loop_panics [OF True, of api clusterName "[]"] by (simp add: g)
  next
    case False
    then have all: "\<forall>d \<in> set items. Spec_Replicas d \<noteq> None"
      by simp
    from items_loop_returns [OF all, of api clusterName "[]"] show ?thesis
      using False by (auto simp: g)
  qed
qed

lemma example_GetClient_b:
  "fst (GetClient (clusterManager example_workloads) ''b'')
     = Inr \<lparr>Config = example_cluster_b, RestConfig = Some ''ctx-b'', Clientset = Some ''ctx-b'',
             Connected = True, Error = None\<rparr>"
  by (simp add: GetClient_def example_workloads_def example_registry_eval example_connect_b)

lemma example_GetClient_a:
  "fst (GetClient (clusterManager example_workloads) ''a'')
     = Inl (''cluster '' @ quoted ''a''
              @ '' is not connected: failed to connect to cluster: connection refused'')"
  by (simp add: GetClient_def example_workloads_def example_registry_eval example_connect_a fmt_v_def)

lemma example_List_b:
  "Deployments_List example_api ''ctx-b'' [] example_remote
     = Inr [example_deployment\<lparr>meta_Namespace := ''default'', Spec_Replicas := None\<rparr>]"
  by (simp add: example_api_def example_remote_def)

theorem getDeploymentsFromCluster_nil_replicas_witness:
  "fst (GetClient (clusterManager example_workloads) ''b'')
     = Inr \<lparr>Config = example_cluster_b, RestConfig = Some ''ctx-b'', Clientset = Some ''ctx-b'',
             Connected = True, Error = None\<rparr>
   \<and> Deployments_List example_api ''ctx-b'' [] example_remote
       = Inr [example_deployment\<lparr>meta_Namespace := ''default'', Spec_Replicas := None\<rparr>]
   \<and> getDeploymentsFromCluster example_api example_workloads ''b'' [] example_remote
       = Inl NilPointerDereference"
  using getDeploymentsFromCluster_nil_replicas [OF example_GetClient_b _ example_List_b]
    example_GetClient_b example_List_b
  by simp

lemma collect_results_all:
  "\<forall>r \<in> set rs. \<not> isl r \<Longrightarrow> collect_results rs acc = Inr (acc @ concat (map projr rs))"
proof (induction rs arbitrary: acc)
  case Nil
  then show ?case by simp
next
  case (Cons r rs)
  then obtain ds where "r = Inr ds"
    by (cases r) auto
  then show ?case
    using Cons by simp
qed

lemma getDeploymentsFromCluster_failure_entry:
  assumes "getDeploymentsFromCluster api m name namespace s = Inr ds"
      and "isl (fst (GetClient (clusterManager m) name))
           \<or> (\<exists>client clientset. fst (GetClient (clusterManager m) name) = Inr client
                 \<and> Clientset client = Some clientset
                 \<and> isl (Deployments_List api clientset namespace s))"
  shows "\<exists>msg. ds = [error_entry name msg] \<and> msg \<noteq> []"
  using assms
  by (auto simp: getDeploymentsFromCluster_def isl_def split: sum.splits option.splits)

text \<open>
  If no goroutine panics, \<^verbatim>\<open>ListDeployments\<close> returns a nil error and the concatenation
  of the targets' slices in order of arrival: every target's entries are in the result,
  and a target whose handle cannot be obtained or whose list call fails is there as one
  entry carrying its name and a non-empty error text.
\<close>

lemma ListDeployments_partial_failure:
  assumes "valid_schedule sched (length (query_targets m clusterNames order))"
      and "\<forall>name \<in> set (query_targets m clusterNames order).
             \<not> isl (getDeploymentsFromCluster api m name namespace s)"
  shows "\<exists>allDeployments.
           ListDeployments api m clusterNames namespace order sched s = Inr (allDeployments, None)
         \<and> (\<forall>name \<in> set (query_targets m clusterNames order). \<exists>ds.
               getDeploymentsFromCluster api m name namespace s = Inr ds
             \<and> set ds \<subseteq> set allDeployments
             \<and> (isl (fst (GetClient (clusterManager m) name))
                  \<or> (\<exists>client clientset. fst (GetClient (clusterManager m) name) = Inr client
                        \<and> Clientset client = Some clientset
                        \<and> isl (Deployments_List api clientset namespace s))
                 \<longrightarrow> (\<exists>msg. ds = [error_entry name msg] \<and> msg \<noteq> [])))
         \<and> (\<forall>e \<in> set allDeployments. \<exists>name \<in> set (query_targets m clusterNames order).
               \<exists>ds. getDeploymentsFromCluster api m name namespace s = Inr ds \<and> e \<in> set ds)"
proof -
  let ?targets = "query_targets m clusterNames order"
  let ?sent = "map (\<lambda>name. getDeploymentsFromCluster api m name namespace s) ?targets"
  let ?arrived = "arrivals sched ?sent"
  have "mset ?arrived = mset ?sent"
    by (rule arrivals_mset) (simp add: assms(1))
  then have st: "set ?arrived = (\<lambda>name. getDeploymentsFromCluster api m name namespace s) ` set ?targets"
    using mset_eq_setD by fastforce
  then have ok: "\<forall>r \<in> set ?arrived. \<not> isl r"
    using assms(2) by auto
  define allDeployments where "allDeployments = concat (map projr ?arrived)"
  have L: "ListDeployments api m clusterNames namespace order sched s = Inr (allDeployments, None)"
    using collect_results_all [OF ok, of "[]"]
    by (simp add: ListDeployments_def Let_def allDeployments_def)
  have sa: "set allDeployments = (\<Union>r \<in> set ?arrived. set (projr r))"
    by (simp add: allDeployments_def)
  have 1: "\<exists>ds. getDeploymentsFromCluster api m name namespace s = Inr ds
             \<and> set ds \<subseteq> set allDeployments
             \<and> (isl (fst (GetClient (clusterManager m) name))
                  \<or> (\<exists>client clientset. fst (GetClient (clusterManager m) name) = Inr client
                        \<and> Clientset client = Some clientset
                        \<and> isl (Deployments_List api clientset namespace s))
                 \<longrightarrow> (\<exists>msg. ds = [error_entry name msg] \<and> msg \<noteq> []))"
    if n: "name \<in> set ?targets" for name
  proof -
    obtain ds where ds: "getDeploymentsFromCluster api m name namespace s = Inr ds"
      using assms(2) n by (cases "getDeploymentsFromCluster api m name namespace s") auto
    then have "Inr ds \<in> set ?arrived"
      using n st by force
    then have "set ds \<subseteq> set allDeployments"
      unfolding sa by force
    then show ?thesis
      using ds getDeploymentsFromCluster_failure_entry [OF ds] by blast
  qed
  have 2: "\<exists>name \<in> set ?targets. \<exists>ds.
             getDeploymentsFromCluster api m name namespace s = Inr ds \<and> e \<in> set ds"
    if e: "e \<in> set allDeployments" for e
  proof -
    obtain r where r: "r \<in> set ?arrived" "e \<in> set (projr r)"
      using e unfolding sa by blast
    then obtain name where name: "name \<in> set ?targets"
        "getDeploymentsFromCluster api m name namespace s = r"
      using st by auto
    obtain ds where ds: "r = Inr ds"
      using ok r(1) by (cases r) auto
    have "e \<in> set ds"
      using r(2) by (simp add: ds)
    then show ?thesis
      using name ds by blast
  qed
  show ?thesis
    using L 1 2 by blast
qed

text \<open>
  C4 at a concrete fleet, where the hypothesis of the lemma above fails: target \<open>a\<close> is not
  connected, target \<open>b\<close> is connected and lists one deployment without a desired-replica
  count. \<^verbatim>\<open>ListDeployments\<close> returns neither a collection nor a nil error: the goroutine
  for \<open>b\<close> panics, and the error entry for \<open>a\<close> is lost with it.
\<close>

theorem ListDeployments_nil_replicas_panics:
  "ListDeployments example_api example_workloads [''a'', ''b''] [] [''b'', ''a''] [0, 1] example_remote
     = Inl NilPointerDereference"
  by (simp add: ListDeployments_def query_targets_def arrivals_def getDeploymentsFromCluster_def
      example_GetClient_a example_GetClient_b example_List_b deployment_entry_def Let_def)

section \<open>Deploying a manifest to one cluster\<close>

text \<open>
  C8, as the code has it. For a manifest that decodes and whose \<^verbatim>\<open>kind\<close> is missing, not a
  string, or a string other than \<^verbatim>\<open>Deployment\<close>, \<^verbatim>\<open>DeployToCluster\<close> returns an error and
  leaves the remote state and the record of remote calls as they were. The target is looked
  up first: if the lookup fails the error is the lookup's; otherwise it is the missing-kind
  error or the unsupported-kind error naming the kind.
\<close>

theorem DeployToCluster_rejects_other_kinds:
  assumes "Unmarshal_object yaml yamlContent = Inr obj"
      and "assert_string (obj ''kind'') \<noteq> Some ''Deployment''"
  shows "DeployToCluster yaml api m clusterName namespace yamlContent w =
           (Inr (Some (case fst (GetClient (clusterManager m) clusterName) of
                         Inl err \<Rightarrow> ''failed to get cluster client for '' @ clusterName @ '': '' @ err
                       | Inr client \<Rightarrow>
                           (case assert_string (obj ''kind'') of
                              None \<Rightarrow> ''YAML must specify a '' @ quoted ''kind'' @ '' field''
                            | Some kind \<Rightarrow> ''resource kind '' @ quoted kind @ '' is not supported yet''))),
            w)"
proof (cases "fst (GetClient (clusterManager m) clusterName)")
  case (Inl err)
  then show ?thesis
    by (simp add: DeployToCluster_def)
next
  case (Inr client)
  show ?thesis
  proof (cases "assert_string (obj ''kind'')")
    case None
    then show ?thesis
      using Inr assms(1) by (simp add: DeployToCluster_def)
  next
    case (Some kind)
    then have "kind \<noteq> ''Deployment''"
      using assms(2) by auto
    then show ?thesis
      using Inr Some assms(1) by (simp add: DeployToCluster_def)
  qed
qed

lemma example_Unmarshal_service:
  "Unmarshal_object example_yaml ''{kind: Service, metadata: {name: web}}''
     = Inr [''kind'' \<mapsto> YString ''Service'', ''metadata'' \<mapsto> YMap [(''name'', YString ''web'')]]"
  by (simp add: example_yaml_def)

theorem DeployToCluster_rejects_other_kinds_witness:
  "Unmarshal_object example_yaml ''{kind: Service, metadata: {name: web}}''
     = Inr [''kind'' \<mapsto> YString ''Service'', ''metadata'' \<mapsto> YMap [(''name'', YString ''web'')]]
   \<and> DeployToCluster example_yaml example_api example_workloads ''b'' ''default''
         ''{kind: Service, metadata: {name: web}}'' \<lparr>remote = [], calls = []\<rparr>
       = (Inr (Some (''resource kind '' @ quoted ''Service'' @ '' is not supported yet'')),
          \<lparr>remote = [], calls = []\<rparr>)"
  using DeployToCluster_rejects_other_kinds [OF example_Unmarshal_service,
      of example_api example_workloads "''b''" "''default''" "\<lparr>remote = [], calls = []\<rparr>"]
    example_Unmarshal_service
  by (simp add: example_GetClient_b)

text \<open>
  Against C8 as stated: a \<^verbatim>\<open>Service\<close> manifest is sent to cluster \<open>a\<close>, which is
  configured but not connected. The error returned is the failed lookup of the target, not
  an unsupported-kind or a missing-kind error.
\<close>

theorem DeployToCluster_other_kind_unconnected_target:
  "Unmarshal_object example_yaml ''{kind: Service, metadata: {name: web}}''
     = Inr [''kind'' \<mapsto> YString ''Service'', ''metadata'' \<mapsto> YMap [(''name'', YString ''web'')]]
   \<and> DeployToCluster example_yaml example_api example_workloads ''a'' ''default''
         ''{kind: Service, metadata: {name: web}}'' \<lparr>remote = [], calls = []\<rparr>
       = (Inr (Some (''failed to get cluster client for a: cluster '' @ quoted ''a''
                       @ '' is not connected: failed to connect to cluster: connection refused'')),
          \<lparr>remote = [], calls = []\<rparr>)"
  by (simp add: DeployToCluster_def example_GetClient_a example_yaml_def)

end
